theory Spec2Isabelle
  imports Complex_Main "HOL-Library.Log_Nat"
begin

section \<open>Data model\<close>

text \<open>
  A Python \<^verbatim>\<open>str\<close> is a sequence of Unicode code points: a \<open>str\<close> is the list of their
  numbers, so that its length is Python's \<^verbatim>\<open>len\<close>. \<open>ascii\<close> embeds a literal of the
  source, which is ASCII throughout.
\<close>

type_synonym str = "nat list"

definition ascii :: "string \<Rightarrow> str" where
  "ascii s = map of_char s"

text \<open>
  The analyzer of \<^verbatim>\<open>sentiment_analyzer.py\<close> holds one pandas DataFrame and reads five
  of its columns: \<^verbatim>\<open>message\<close>, \<^verbatim>\<open>sentiment\<close>, \<^verbatim>\<open>sentiment_label\<close>, \<^verbatim>\<open>text_length\<close> and
  \<^verbatim>\<open>word_count\<close>. A row is a record with these fields and the frame is the list of its
  rows, in row order. The integer columns hold \<open>int\<close>.
\<close>

record tweet =
  message :: str
  sentiment :: int
  sentiment_label :: str
  text_length :: int
  word_count :: int

type_synonym dataframe = "tweet list"

text \<open>
  A Python exception is the error value \<open>Error name\<close>, \<open>name\<close> being the class of the
  exception. Every method of the analyzer catches \<^verbatim>\<open>Exception\<close>, logs and re-raises it
  unchanged, so the error value of a method is the one raised inside it.
\<close>

datatype error = Error string

definition ValueError :: error where
  "ValueError = Error ''ValueError''"

section \<open>Counting\<close>

text \<open>
  \<^verbatim>\<open>collections.Counter(iterable)\<close> is a dict, which keeps its keys in insertion order:
  each element either increments the count of its key or is appended with count 1.
\<close>

fun counter_add :: "'a \<Rightarrow> ('a \<times> nat) list \<Rightarrow> ('a \<times> nat) list" where
  "counter_add w [] = [(w, 1)]"
| "counter_add w ((k, c) # kcs) =
     (if k = w then (k, Suc c) # kcs else (k, c) # counter_add w kcs)"

definition Counter :: "'a list \<Rightarrow> ('a \<times> nat) list" where
  "Counter ws = foldl (\<lambda>acc w. counter_add w acc) [] ws"

text \<open>
  \<^verbatim>\<open>Counter.most_common(n)\<close> is \<^verbatim>\<open>heapq.nlargest(n, items, key=count)\<close>, that is
  \<^verbatim>\<open>sorted(items, key=count, reverse=True)[:n]\<close>: descending count, entries of equal
  count in the order of the dict.
\<close>

definition most_common :: "nat \<Rightarrow> ('a \<times> nat) list \<Rightarrow> ('a \<times> nat) list" where
  "most_common n kcs = take n (sort_key (\<lambda>kc. - int (snd kc)) kcs)"

text \<open>
  \<^verbatim>\<open>Series.value_counts()\<close> counts the values of a column and orders them by descending
  count (first appearance among equal counts); \<^verbatim>\<open>sort_index()\<close> reorders by ascending
  key. \<^verbatim>\<open>Series.get(key, default)\<close> looks a key up.
\<close>

definition value_counts :: "'a list \<Rightarrow> ('a \<times> nat) list" where
  "value_counts xs = sort_key (\<lambda>kc. - int (snd kc)) (Counter xs)"

definition sort_index :: "('a::linorder \<times> 'b) list \<Rightarrow> ('a \<times> 'b) list" where
  "sort_index kcs = sort_key fst kcs"

definition get :: "('a \<times> 'b) list \<Rightarrow> 'a \<Rightarrow> 'b \<Rightarrow> 'b" where
  "get kcs k d = (case map_of kcs k of None \<Rightarrow> d | Some c \<Rightarrow> c)"

text \<open>
  \<^verbatim>\<open>Series.idxmax()\<close> is the key of the first occurrence of the maximum; on an empty
  series it raises \<^verbatim>\<open>ValueError\<close> (argmax of an empty sequence).
\<close>

fun argmax_from :: "'a \<times> nat \<Rightarrow> ('a \<times> nat) list \<Rightarrow> 'a \<times> nat" where
  "argmax_from best [] = best"
| "argmax_from best (kc # kcs) =
     (if snd best < snd kc then argmax_from kc kcs else argmax_from best kcs)"

fun idxmax :: "('a \<times> nat) list \<Rightarrow> error + 'a" where
  "idxmax [] = Inl ValueError"
| "idxmax (kc # kcs) = Inr (fst (argmax_from kc kcs))"

section \<open>Floating point\<close>

text \<open>
  A finite float64 is the real number it denotes. \<open>rint\<close> rounds a real to the nearest
  integer, a half going to the even neighbour. \<open>bexp x\<close> is the binary exponent of a
  non-zero \<open>x\<close>: the integer \<open>e\<close> with \<open>2 powi e \<le> \<bar>x\<bar> < 2 powi (e + 1)\<close>. \<open>fl64 x\<close> is
  \<open>x\<close> rounded to 53 significant bits: the nearest float64, a tie going to the even
  mantissa. The exponent is not bounded, so overflow and subnormal numbers are outside the
  model. An arithmetic operation of IEEE 754 is the exact operation followed by this
  rounding.
\<close>

definition rint :: "real \<Rightarrow> int" where
  "rint x =
     (let f = \<lfloor>x\<rfloor>; d = x - of_int f
      in if d < 1 / 2 then f else if 1 / 2 < d then f + 1 else if even f then f else f + 1)"

definition bexp :: "real \<Rightarrow> int" where
  "bexp x =
     (if 1 \<le> \<bar>x\<bar> then int (floorlog 2 (nat \<lfloor>\<bar>x\<bar>\<rfloor>)) - 1
      else - int (floorlog 2 (nat (\<lceil>1 / \<bar>x\<bar>\<rceil> - 1))))"

definition fl64 :: "real \<Rightarrow> real" where
  "fl64 x =
     (if x = 0 then 0
      else of_int (rint (x * 2 powi (52 - bexp x))) * 2 powi (bexp x - 52))"

definition fadd :: "real \<Rightarrow> real \<Rightarrow> real" where
  "fadd a b = fl64 (a + b)"

definition fsub :: "real \<Rightarrow> real \<Rightarrow> real" where
  "fsub a b = fl64 (a - b)"

definition fmul :: "real \<Rightarrow> real \<Rightarrow> real" where
  "fmul a b = fl64 (a * b)"

definition fdiv :: "real \<Rightarrow> real \<Rightarrow> real" where
  "fdiv a b = fl64 (a / b)"

definition fsqrt :: "real \<Rightarrow> real" where
  "fsqrt a = fl64 (sqrt a)"

text \<open>
  \<^verbatim>\<open>numpy.round(x, decimals)\<close> with \<open>decimals \<ge> 0\<close> multiplies by \<open>10 ^ decimals\<close>,
  rounds to the nearest integer with \<^verbatim>\<open>rint\<close> and divides by \<open>10 ^ decimals\<close>, each of
  the three steps in float64. \<^verbatim>\<open>Series.round\<close> and the \<^verbatim>\<open>__round__\<close> of a numpy scalar
  are this function.
\<close>

definition np_round :: "nat \<Rightarrow> real \<Rightarrow> real" where
  "np_round decimals x = fdiv (of_int (rint (fmul x (10 ^ decimals)))) (10 ^ decimals)"

section \<open>Sentiment distribution\<close>

record balance =
  pro_climate :: nat
  anti_climate :: nat
  neutral :: nat

record distribution =
  total_tweets :: nat
  sentiment_counts :: "(int \<times> nat) list"
  sentiment_label_counts :: "(str \<times> nat) list"
  sentiment_percentages :: "(int \<times> real) list"
  dominant_sentiment :: int
  dominant_sentiment_label :: str
  sentiment_balance :: balance

text \<open>
  \<^verbatim>\<open>(sentiment_counts / total_tweets * 100).round(2)\<close>: the integer counts and the
  total are converted to float64 (exactly, a frame having fewer than \<open>2 ^ 53\<close> rows), then
  divided, multiplied and rounded entry by entry.
\<close>

definition percentages :: "nat \<Rightarrow> (int \<times> nat) list \<Rightarrow> (int \<times> real) list" where
  "percentages n kcs =
     map (\<lambda>kc. (fst kc, np_round 2 (fmul (fdiv (real (snd kc)) (real n)) 100))) kcs"

definition analyze_sentiment_distribution :: "dataframe \<Rightarrow> error + distribution" where
  "analyze_sentiment_distribution data =
     (let counts = sort_index (value_counts (map sentiment data));
          label_counts = value_counts (map sentiment_label data);
          total_n = length data;
          pcts = percentages total_n counts
      in case idxmax counts of
           Inl e \<Rightarrow> Inl e
         | Inr dominant \<Rightarrow>
            (case idxmax label_counts of
               Inl e \<Rightarrow> Inl e
             | Inr dominant_label \<Rightarrow>
                 Inr \<lparr> total_tweets = total_n,
                       sentiment_counts = counts,
                       sentiment_label_counts = label_counts,
                       sentiment_percentages = pcts,
                       dominant_sentiment = dominant,
                       dominant_sentiment_label = dominant_label,
                       sentiment_balance =
                         \<lparr> pro_climate = get counts 1 0 + get counts 2 0,
                           anti_climate = get counts (- 1) 0,
                           neutral = get counts 0 0 \<rparr> \<rparr>))"

section \<open>Text normalisation\<close>

text \<open>
  The character tables of Python's Unicode database are outside the repository and enter
  as a parameter: \<open>isalnum c\<close> is \<^verbatim>\<open>str.isalnum\<close> of the code point \<open>c\<close>, the test
  behind the class \<^verbatim>\<open>\w\<close> of a \<^verbatim>\<open>str\<close> pattern, which adds the underscore;
  \<open>isspace c\<close> is \<^verbatim>\<open>str.isspace\<close>, the test behind both the class \<^verbatim>\<open>\s\<close> and
  \<^verbatim>\<open>str.split()\<close>; \<open>lower_at s i\<close> is what \<^verbatim>\<open>s.lower()\<close> puts for the code point at
  position \<open>i\<close> of \<open>s\<close>, which may be several code points and, for the capital sigma,
  depends on the neighbours;
  \<open>search_nocase pat s\<close> tells whether the pattern of plain characters \<open>pat\<close> is found
  in \<open>s\<close> by \<^verbatim>\<open>re.search\<close> under \<^verbatim>\<open>re.IGNORECASE\<close>.
\<close>

record unicode_db =
  isalnum :: "nat \<Rightarrow> bool"
  isspace :: "nat \<Rightarrow> bool"
  lower_at :: "str \<Rightarrow> nat \<Rightarrow> str"
  search_nocase :: "str \<Rightarrow> str \<Rightarrow> bool"

text \<open>\<^verbatim>\<open>s.lower()\<close>: the lowercase of every position, in order.\<close>

definition str_lower :: "unicode_db \<Rightarrow> str \<Rightarrow> str" where
  "str_lower U s = concat (map (lower_at U s) [0..<length s])"

definition is_word_char :: "unicode_db \<Rightarrow> nat \<Rightarrow> bool" where
  "is_word_char U c = (isalnum U c \<or> c = 95)"

text \<open>\<^verbatim>\<open>re.sub(r'[^\w\s]', ' ', s)\<close>: every character outside both classes becomes a space.\<close>

definition re_sub_non_word :: "unicode_db \<Rightarrow> str \<Rightarrow> str" where
  "re_sub_non_word U s = map (\<lambda>c. if is_word_char U c \<or> isspace U c then c else 32) s"

text \<open>
  \<^verbatim>\<open>str.split()\<close> scans the text once: whitespace closes the word being read, if there
  is one, and any other character extends it.
\<close>

fun split_from :: "(nat \<Rightarrow> bool) \<Rightarrow> str \<Rightarrow> str \<Rightarrow> str list" where
  "split_from sp cur [] = (if cur = [] then [] else [cur])"
| "split_from sp cur (c # cs) =
     (if sp c then (if cur = [] then split_from sp [] cs else cur # split_from sp [] cs)
      else split_from sp (cur @ [c]) cs)"

definition str_split :: "unicode_db \<Rightarrow> str \<Rightarrow> str list" where
  "str_split U s = split_from (isspace U) [] s"

text \<open>\<^verbatim>\<open>sep.join(parts)\<close>.\<close>

fun join :: "'a list \<Rightarrow> 'a list list \<Rightarrow> 'a list" where
  "join sep [] = []"
| "join sep [x] = x"
| "join sep (x # y # ys) = x @ sep @ join sep (y # ys)"

text \<open>\<^verbatim>\<open>k in w\<close> on strings: \<open>k\<close> occurs in \<open>w\<close> as a contiguous piece.\<close>

fun starts_with :: "'a list \<Rightarrow> 'a list \<Rightarrow> bool" where
  "starts_with [] w = True"
| "starts_with (k # ks) [] = False"
| "starts_with (k # ks) (c # cs) = (k = c \<and> starts_with ks cs)"

fun contains :: "'a list \<Rightarrow> 'a list \<Rightarrow> bool" where
  "contains k [] = (k = [])"
| "contains k (c # cs) = (starts_with k (c # cs) \<or> contains k cs)"

section \<open>Themes\<close>

definition stop_words :: "str list" where
  "stop_words = map ascii
     [''the'', ''a'', ''an'', ''and'', ''or'', ''but'', ''in'', ''on'', ''at'', ''to'', ''for'',
      ''of'', ''with'', ''by'', ''is'', ''are'', ''was'', ''were'', ''be'', ''been'', ''have'',
      ''has'', ''had'', ''do'', ''does'', ''did'', ''will'', ''would'', ''could'', ''should'',
      ''may'', ''might'', ''can'', ''this'', ''that'', ''these'', ''those'', ''i'', ''you'',
      ''he'', ''she'', ''it'', ''we'', ''they'', ''me'', ''him'', ''her'', ''us'', ''them'',
      ''my'', ''your'', ''his'', ''her'', ''its'', ''our'', ''their'', ''mine'', ''yours'',
      ''his'', ''hers'', ''ours'', ''theirs'', ''rt'', ''via'', ''http'', ''https'', ''com'',
      ''www'', ''co'', ''amp'']"

definition climate_keywords :: "str list" where
  "climate_keywords = map ascii
     [''climate'', ''change'', ''global'', ''warming'', ''emission'', ''carbon'',
      ''temperature'', ''weather'', ''environment'', ''greenhouse'', ''pollution'',
      ''renewable'', ''energy'', ''solar'', ''wind'', ''fossil'', ''fuel'',
      ''sustainability'', ''eco'', ''green'', ''earth'', ''planet'', ''ocean'',
      ''ice'', ''melting'', ''sea'', ''level'', ''drought'', ''flood'', ''storm'']"

text \<open>
  The cleaning, splitting and filtering that \<^verbatim>\<open>identify_key_themes\<close> applies, in the same
  words, to the whole text and to the text of each sentiment class.
\<close>

definition filtered_words :: "unicode_db \<Rightarrow> str \<Rightarrow> str list" where
  "filtered_words U all_text =
     filter (\<lambda>word. 2 < length word \<and> word \<notin> set stop_words)
       (str_split U (re_sub_non_word U (str_lower U all_text)))"

record theme_analysis =
  top_themes :: "(str \<times> nat) list"
  total_unique_words :: nat
  theme_by_sentiment :: "(int \<times> (str \<times> nat) list) list"
  climate_related_words :: "(str \<times> nat) list"

definition sentiment_themes :: "unicode_db \<Rightarrow> dataframe \<Rightarrow> int \<Rightarrow> (str \<times> nat) list" where
  "sentiment_themes U data s =
     (let sentiment_data = filter (\<lambda>t. sentiment t = s) data;
          sentiment_text = join (ascii '' '') (map message sentiment_data);
          sentiment_filtered = filtered_words U sentiment_text;
          sentiment_count = Counter sentiment_filtered
      in most_common 10 sentiment_count)"

definition identify_key_themes :: "unicode_db \<Rightarrow> nat \<Rightarrow> dataframe \<Rightarrow> theme_analysis" where
  "identify_key_themes U top_n data =
     (let all_text = join (ascii '' '') (map message data);
          word_counts = Counter (filtered_words U all_text)
      in \<lparr> top_themes = most_common top_n word_counts,
           total_unique_words = length word_counts,
           theme_by_sentiment = map (\<lambda>s. (s, sentiment_themes U data s)) [- 1, 0, 1, 2],
           climate_related_words =
             filter (\<lambda>wc. list_ex (\<lambda>keyword. contains keyword (fst wc)) climate_keywords)
               word_counts \<rparr>)"

text \<open>
  The tokens of one sentiment class: the cleaning, splitting and filtering applied to the
  messages of the rows whose sentiment is \<open>c\<close>, joined by single spaces. This is the
  \<^verbatim>\<open>sentiment_filtered\<close> of the loop in \<^verbatim>\<open>identify_key_themes\<close>.
\<close>

definition class_tokens :: "unicode_db \<Rightarrow> dataframe \<Rightarrow> int \<Rightarrow> str list" where
  "class_tokens U data c =
     filtered_words U (join (ascii '' '') (map message (filter (\<lambda>t. sentiment t = c) data)))"

text \<open>
  The tokenizer as the specification words it, to compare with \<open>filtered_words\<close>: lowercase,
  replace every character that is not kept by a single space, split on whitespace, drop the
  tokens of length at most 2 and the stopwords. The specification keeps letters, digits and
  whitespace (\<open>spec_keeps\<close>); \<open>word_keeps\<close> keeps the underscore as well. Splitting is
  written here as the maximal runs of characters that are not whitespace.
\<close>

definition spec_keeps :: "unicode_db \<Rightarrow> nat \<Rightarrow> bool" where
  "spec_keeps U c = (isalnum U c \<or> isspace U c)"

definition word_keeps :: "unicode_db \<Rightarrow> nat \<Rightarrow> bool" where
  "word_keeps U c = (isalnum U c \<or> c = 95 \<or> isspace U c)"

function spec_split :: "(nat \<Rightarrow> bool) \<Rightarrow> str \<Rightarrow> str list" where
  "spec_split sp s =
     (case dropWhile sp s of
        [] \<Rightarrow> []
      | c # cs \<Rightarrow>
          (c # takeWhile (\<lambda>x. \<not> sp x) cs) # spec_split sp (dropWhile (\<lambda>x. \<not> sp x) cs))"
  by pat_completeness auto
termination
proof (relation "measure (\<lambda>p. length (snd p))")
  show "wf (measure (\<lambda>p. length (snd p)))"
    by simp
next
  fix sp :: "nat \<Rightarrow> bool" and s :: str and c cs
  assume "dropWhile sp s = c # cs"
  then have "length cs < length s"
    using length_dropWhile_le [of sp s] by simp
  moreover have "length (dropWhile (\<lambda>x. \<not> sp x) cs) \<le> length cs"
    by (rule length_dropWhile_le)
  ultimately show "((sp, dropWhile (\<lambda>x. \<not> sp x) cs), (sp, s)) \<in> measure (\<lambda>p. length (snd p))"
    by simp
qed

declare spec_split.simps [simp del]

definition spec_tokens :: "unicode_db \<Rightarrow> (nat \<Rightarrow> bool) \<Rightarrow> str \<Rightarrow> str list" where
  "spec_tokens U keeps all_text =
     filter (\<lambda>w. \<not> (length w \<le> 2 \<or> w \<in> set stop_words))
       (spec_split (isspace U) (map (\<lambda>c. if keeps c then c else 32) (str_lower U all_text)))"

text \<open>
  Tables for text whose code points are all below 128, where they agree with Python's:
  the letters and digits of ASCII, the white space 9 to 13 and 28 to 32, and the capital
  letters lowered. They serve to run the definitions on ASCII examples.
\<close>

definition ascii_isalnum :: "nat \<Rightarrow> bool" where
  "ascii_isalnum c = ((48 \<le> c \<and> c \<le> 57) \<or> (65 \<le> c \<and> c \<le> 90) \<or> (97 \<le> c \<and> c \<le> 122))"

definition ascii_isspace :: "nat \<Rightarrow> bool" where
  "ascii_isspace c = ((9 \<le> c \<and> c \<le> 13) \<or> (28 \<le> c \<and> c \<le> 32))"

definition ascii_lower :: "nat \<Rightarrow> nat" where
  "ascii_lower c = (if 65 \<le> c \<and> c \<le> 90 then c + 32 else c)"

definition ascii_db :: unicode_db where
  "ascii_db =
     \<lparr> isalnum = ascii_isalnum, isspace = ascii_isspace,
       lower_at = (\<lambda>s i. [ascii_lower (s ! i)]),
       search_nocase = (\<lambda>pat s. contains (map ascii_lower pat) (map ascii_lower s)) \<rparr>"

section \<open>Text pattern statistics\<close>

text \<open>
  pandas and numpy sum a float64 array by rounded additions whose order is theirs to
  choose (in pairs, in blocks or one after the other). The sum enters as the parameter
  \<open>add_reduce\<close>; every other step of the reductions below is a single float64 operation
  and is written out, after \<^verbatim>\<open>pandas.core.nanops\<close> and \<^verbatim>\<open>numpy.core._methods\<close>.
\<close>

record numpy_lib =
  add_reduce :: "real list \<Rightarrow> real"

text \<open>
  Reductions of pandas over an integer column, which it converts to float64 first; \<open>None\<close>
  is NaN. \<^verbatim>\<open>Series.mean()\<close> divides the sum by the number of rows and is NaN on an
  empty column. \<^verbatim>\<open>Series.median()\<close> is the middle of the sorted column, the mean of the
  two middle values when their number is even. \<^verbatim>\<open>Series.std()\<close> has \<^verbatim>\<open>ddof=1\<close>: the
  squared distances to the mean are summed and divided by the number of rows less one, and
  the result is NaN unless there are at least two rows. \<^verbatim>\<open>Series.min()\<close> and
  \<^verbatim>\<open>Series.max()\<close> of an integer column are integers, NaN on an empty column.
\<close>

definition series_mean :: "numpy_lib \<Rightarrow> int list \<Rightarrow> real option" where
  "series_mean N xs =
     (if xs = [] then None
      else Some (fdiv (add_reduce N (map real_of_int xs)) (real (length xs))))"

definition np_median :: "real list \<Rightarrow> real" where
  "np_median xs =
     (let ys = sort xs; n = length xs
      in if odd n then ys ! (n div 2) else fdiv (fadd (ys ! (n div 2 - 1)) (ys ! (n div 2))) 2)"

definition series_median :: "int list \<Rightarrow> real option" where
  "series_median xs = (if xs = [] then None else Some (np_median (map real_of_int xs)))"

definition nanvar :: "numpy_lib \<Rightarrow> nat \<Rightarrow> real list \<Rightarrow> real option" where
  "nanvar N ddof values =
     (let count = length values
      in if count \<le> ddof then None
         else (let avg = fdiv (add_reduce N values) (real count);
                   sqr = map (\<lambda>v. fmul (fsub avg v) (fsub avg v)) values
               in Some (fdiv (add_reduce N sqr) (real (count - ddof)))))"

definition series_std :: "numpy_lib \<Rightarrow> int list \<Rightarrow> real option" where
  "series_std N xs = map_option fsqrt (nanvar N 1 (map real_of_int xs))"

definition series_min :: "int list \<Rightarrow> int option" where
  "series_min xs = (case xs of [] \<Rightarrow> None | x # rest \<Rightarrow> Some (fold min rest x))"

definition series_max :: "int list \<Rightarrow> int option" where
  "series_max xs = (case xs of [] \<Rightarrow> None | x # rest \<Rightarrow> Some (fold max rest x))"

text \<open>
  The statistics as mathematics defines them, on exact reals: the mean, the population
  standard deviation, which divides by the number of values, and the sample standard
  deviation, which divides by that number less one.
\<close>

definition exact_mean :: "real list \<Rightarrow> real" where
  "exact_mean xs = sum_list xs / real (length xs)"

definition population_std :: "real list \<Rightarrow> real" where
  "population_std xs = sqrt (sum_list (map (\<lambda>x. (x - exact_mean xs)\<^sup>2) xs) / real (length xs))"

definition sample_std :: "real list \<Rightarrow> real" where
  "sample_std xs =
     sqrt (sum_list (map (\<lambda>x. (x - exact_mean xs)\<^sup>2) xs) / real (length xs - 1))"

record length_stats =
  mean_length :: "real option"
  median_length :: "real option"
  min_length :: "int option"
  max_length :: "int option"
  std_length :: "real option"

record words_stats =
  mean_words :: "real option"
  median_words :: "real option"
  min_words :: "int option"
  max_words :: "int option"
  std_words :: "real option"

record sentiment_pattern =
  avg_length :: "real option"
  avg_words :: "real option"
  row_count :: nat

record common_pattern_counts =
  retweets :: nat
  mentions :: nat
  hashtags :: nat
  urls :: nat

record pattern_analysis =
  text_length_stats :: length_stats
  word_count_stats :: words_stats
  patterns_by_sentiment :: "(int \<times> sentiment_pattern) list"
  common_patterns :: common_pattern_counts

text \<open>
  \<^verbatim>\<open>Series.str.contains(pat, case=False)\<close> compiles \<open>pat\<close> as a regular expression
  with \<^verbatim>\<open>re.IGNORECASE\<close> and searches each message; the four patterns of the source
  have no special character.
\<close>

definition str_contains :: "unicode_db \<Rightarrow> str \<Rightarrow> dataframe \<Rightarrow> dataframe" where
  "str_contains U pat data = filter (\<lambda>t. search_nocase U pat (message t)) data"

definition analyze_text_patterns :: "unicode_db \<Rightarrow> numpy_lib \<Rightarrow> dataframe \<Rightarrow> pattern_analysis" where
  "analyze_text_patterns U N data =
     (let lengths = map text_length data;
          words = map word_count data
      in \<lparr> text_length_stats =
             \<lparr> mean_length = series_mean N lengths,
               median_length = series_median lengths,
               min_length = series_min lengths,
               max_length = series_max lengths,
               std_length = series_std N lengths \<rparr>,
           word_count_stats =
             \<lparr> mean_words = series_mean N words,
               median_words = series_median words,
               min_words = series_min words,
               max_words = series_max words,
               std_words = series_std N words \<rparr>,
           patterns_by_sentiment =
             map (\<lambda>s. let sentiment_data = filter (\<lambda>t. sentiment t = s) data
                       in (s, \<lparr> avg_length = series_mean N (map text_length sentiment_data),
                                avg_words = series_mean N (map word_count sentiment_data),
                                row_count = length sentiment_data \<rparr>))
               [- 1, 0, 1, 2],
           common_patterns =
             \<lparr> retweets = length (str_contains U (ascii ''RT @'') data),
               mentions = length (str_contains U (ascii ''@'') data),
               hashtags = length (str_contains U (ascii ''#'') data),
               urls = length (str_contains U (ascii ''http'') data) \<rparr> \<rparr>)"

section \<open>Advanced polarity sampler\<close>

text \<open>
  numpy's generator is outside the repository. It enters as two operations on a generator
  state \<open>'g\<close>: \<open>RandomState k\<close> makes a fresh state from the seed \<open>k\<close>, and
  \<open>permutation g n\<close> draws an arrangement of the indices below \<open>n\<close> and returns the
  advanced state. The process-wide generator of \<^verbatim>\<open>numpy.random\<close> is a state threaded
  through every call.

  \<^verbatim>\<open>DataFrame.sample(n, random_state)\<close> takes the first \<open>n\<close> indices of a permutation of
  the row positions: from a generator made for this call when \<open>random_state\<close> is a seed,
  leaving the process-wide generator alone, and from the process-wide generator, advancing
  it, when \<open>random_state\<close> is absent. \<^verbatim>\<open>take\<close> raises \<^verbatim>\<open>IndexError\<close> on a position
  outside the frame.
\<close>

record 'g random_ops =
  RandomState :: "nat \<Rightarrow> 'g"
  permutation :: "'g \<Rightarrow> nat \<Rightarrow> nat list \<times> 'g"

definition IndexError :: error where
  "IndexError = Error ''IndexError''"

definition take_rows :: "dataframe \<Rightarrow> nat list \<Rightarrow> error + dataframe" where
  "take_rows data locs =
     (if list_all (\<lambda>i. i < length data) locs then Inr (map (nth data) locs) else Inl IndexError)"

definition sample ::
  "'g random_ops \<Rightarrow> dataframe \<Rightarrow> nat \<Rightarrow> nat option \<Rightarrow> 'g \<Rightarrow> (error + dataframe) \<times> 'g" where
  "sample R data n random_state g =
     (case random_state of
        Some k \<Rightarrow>
          (let drawn = permutation R (RandomState R k) (length data)
           in (take_rows data (take n (fst drawn)), g))
      | None \<Rightarrow>
          (let drawn = permutation R g (length data)
           in (take_rows data (take n (fst drawn)), snd drawn)))"

text \<open>
  The external scorer (TextBlob) gives a polarity and a subjectivity for a text, or fails:
  \<open>None\<close> is any exception it raises. The loop appends one polarity and one subjectivity
  per message, two zeros when the scorer failed.
\<close>

fun score_loop ::
  "(str \<Rightarrow> (real \<times> real) option) \<Rightarrow> str list \<Rightarrow> real list \<Rightarrow> real list
     \<Rightarrow> real list \<times> real list" where
  "score_loop score [] sentiments subjectivities = (sentiments, subjectivities)"
| "score_loop score (m # ms) sentiments subjectivities =
     (case score m of
        Some (polarity, subjectivity) \<Rightarrow>
          score_loop score ms (sentiments @ [polarity]) (subjectivities @ [subjectivity])
      | None \<Rightarrow> score_loop score ms (sentiments @ [0]) (subjectivities @ [0]))"

text \<open>
  \<^verbatim>\<open>numpy.mean\<close>, \<^verbatim>\<open>numpy.median\<close>, \<^verbatim>\<open>numpy.std\<close> (with \<^verbatim>\<open>ddof=0\<close>),
  \<^verbatim>\<open>numpy.min\<close> and \<^verbatim>\<open>numpy.max\<close> of a list of floats. On an empty list the first
  three are NaN, under a warning that the module silences, and \<^verbatim>\<open>numpy.min\<close> then raises
  \<^verbatim>\<open>ValueError\<close>, so that no summary is made.
\<close>

definition np_mean :: "numpy_lib \<Rightarrow> real list \<Rightarrow> real" where
  "np_mean N xs = fdiv (add_reduce N xs) (real (length xs))"

definition np_std :: "numpy_lib \<Rightarrow> real list \<Rightarrow> real" where
  "np_std N xs =
     (let arrmean = fdiv (add_reduce N xs) (real (length xs));
          x = map (\<lambda>v. fsub v arrmean) xs;
          ret = add_reduce N (map (\<lambda>d. fmul d d) x)
      in fsqrt (fdiv ret (real (length xs))))"

record summary =
  mean_v :: real
  median_v :: real
  std_v :: real
  min_v :: real
  max_v :: real

definition np_summary :: "numpy_lib \<Rightarrow> real list \<Rightarrow> error + summary" where
  "np_summary N xs =
     (case xs of
        [] \<Rightarrow> Inl ValueError
      | x # rest \<Rightarrow>
          Inr \<lparr> mean_v = np_mean N xs, median_v = np_median xs, std_v = np_std N xs,
                min_v = fold min rest x, max_v = fold max rest x \<rparr>)"

record advanced_analysis =
  textblob_polarity :: summary
  textblob_subjectivity :: summary
  sample_size :: nat

definition perform_advanced_sentiment_analysis ::
  "numpy_lib \<Rightarrow> 'g random_ops \<Rightarrow> (str \<Rightarrow> (real \<times> real) option) \<Rightarrow> dataframe \<Rightarrow> 'g
     \<Rightarrow> (error + advanced_analysis) \<times> 'g" where
  "perform_advanced_sentiment_analysis N R score data g =
     (let size = min 5000 (length data);
          sampled = sample R data size (Some 42) g
      in case fst sampled of
           Inl e \<Rightarrow> (Inl e, snd sampled)
         | Inr sample_data \<Rightarrow>
             (let scores = score_loop score (map message sample_data) [] []
              in case np_summary N (fst scores) of
                   Inl e \<Rightarrow> (Inl e, snd sampled)
                 | Inr polarity \<Rightarrow>
                     (case np_summary N (snd scores) of
                        Inl e \<Rightarrow> (Inl e, snd sampled)
                      | Inr subjectivity \<Rightarrow>
                          (Inr \<lparr> textblob_polarity = polarity,
                                 textblob_subjectivity = subjectivity,
                                 sample_size = size \<rparr>,
                           snd sampled))))"

section \<open>Recommendations\<close>

definition anti_message :: str where
  "anti_message = ascii
     ''High anti-climate change sentiment detected. Consider targeted educational campaigns.''"

definition neutral_message :: str where
  "neutral_message = ascii
     ''High neutral sentiment suggests need for more engaging climate change content.''"

definition pro_message :: str where
  "pro_message = ascii
     ''Pro-climate change sentiment is dominant. Leverage this for broader engagement.''"

definition vocabulary_message :: str where
  "vocabulary_message = ascii
     ''Limited climate-specific terminology. Consider expanding climate change vocabulary.''"

definition focus_message :: "str list \<Rightarrow> str" where
  "focus_message themes = ascii ''Focus on key themes: '' @ join (ascii '', '') (take 5 themes)"

definition generate_recommendations :: "distribution \<Rightarrow> theme_analysis \<Rightarrow> str list" where
  "generate_recommendations sd kt =
     (let pro_count = pro_climate (sentiment_balance sd);
          anti_count = anti_climate (sentiment_balance sd);
          neutral_count = neutral (sentiment_balance sd);
          r0 = [];
          r1 = (if pro_count < anti_count then r0 @ [anti_message] else r0);
          r2 = (if pro_count + anti_count < neutral_count then r1 @ [neutral_message] else r1);
          r3 = (if anti_count < pro_count then r2 @ [pro_message] else r2);
          themes = map fst (take 10 (top_themes kt));
          climate_words = map fst (climate_related_words kt);
          r4 = (if length climate_words < 10 then r3 @ [vocabulary_message] else r3)
      in r4 @ [focus_message themes])"

section \<open>Insight report\<close>

record dataset_overview =
  overview_total_tweets :: nat
  date_range :: str
  topic :: str

record key_findings =
  finding_dominant_sentiment :: str
  finding_sentiment_balance :: balance
  most_common_themes :: "(str \<times> nat) list"
  average_tweet_length :: "real option"

record detailed_analysis =
  detail_sentiment_distribution :: distribution
  detail_theme_analysis :: theme_analysis
  detail_text_patterns :: pattern_analysis
  detail_advanced_sentiment :: advanced_analysis

record insights =
  overview :: dataset_overview
  findings :: key_findings
  details :: detailed_analysis
  recommendations :: "str list"

text \<open>
  The report runs the four analyses in turn, the first error ending it; the rounding of
  the mean length, \<^verbatim>\<open>round(x, 1)\<close> on a numpy scalar, is \<open>np_round 1\<close>.
\<close>

definition generate_insights_report ::
  "unicode_db \<Rightarrow> numpy_lib \<Rightarrow> 'g random_ops \<Rightarrow> (str \<Rightarrow> (real \<times> real) option)
     \<Rightarrow> dataframe \<Rightarrow> 'g \<Rightarrow> (error + insights) \<times> 'g" where
  "generate_insights_report U N R score data g =
     (case analyze_sentiment_distribution data of
        Inl e \<Rightarrow> (Inl e, g)
      | Inr sd \<Rightarrow>
          (let key_themes = identify_key_themes U 20 data;
               text_patterns = analyze_text_patterns U N data;
               advanced = perform_advanced_sentiment_analysis N R score data g
           in case fst advanced of
                Inl e \<Rightarrow> (Inl e, snd advanced)
              | Inr adv \<Rightarrow>
                  (Inr \<lparr> overview =
                           \<lparr> overview_total_tweets = total_tweets sd,
                             date_range = ascii ''Apr 27, 2015 - Feb 21, 2018'',
                             topic = ascii ''Climate Change'' \<rparr>,
                         findings =
                           \<lparr> finding_dominant_sentiment = dominant_sentiment_label sd,
                             finding_sentiment_balance = sentiment_balance sd,
                             most_common_themes = take 5 (top_themes key_themes),
                             average_tweet_length =
                               map_option (np_round 1)
                                 (mean_length (text_length_stats text_patterns)) \<rparr>,
                         details =
                           \<lparr> detail_sentiment_distribution = sd,
                             detail_theme_analysis = key_themes,
                             detail_text_patterns = text_patterns,
                             detail_advanced_sentiment = adv \<rparr>,
                         recommendations = generate_recommendations sd key_themes \<rparr>,
                   snd advanced)))"

section \<open>Example frames\<close>

text \<open>
  Two rows used to exercise the theorems on a concrete frame: one pro-climate and one
  anti-climate message.
\<close>

definition example_tweets :: dataframe where
  "example_tweets =
     [\<lparr> message = ascii ''solar solar wind'', sentiment = 1, sentiment_label = ascii ''Pro'',
        text_length = 16, word_count = 3 \<rparr>,
      \<lparr> message = ascii ''fake hoax fake'', sentiment = - 1, sentiment_label = ascii ''Anti'',
        text_length = 14, word_count = 3 \<rparr>]"

text \<open>
  A frame of 160 rows, 23 of them anti-climate, 49 neutral and 88 pro-climate. Its exact
  percentages 14.375 and 30.625 lie halfway between two hundredths.
\<close>

definition rounding_tweets :: dataframe where
  "rounding_tweets =
     replicate 23 \<lparr> message = ascii ''fake hoax fake'', sentiment = - 1,
                    sentiment_label = ascii ''Anti'', text_length = 14, word_count = 3 \<rparr> @
     replicate 49 \<lparr> message = ascii ''weather report'', sentiment = 0,
                    sentiment_label = ascii ''Neutral'', text_length = 14, word_count = 2 \<rparr> @
     replicate 88 \<lparr> message = ascii ''solar solar wind'', sentiment = 1,
                    sentiment_label = ascii ''Pro'', text_length = 16, word_count = 3 \<rparr>"

section \<open>Facts about counting\<close>

lemma counter_add_keys: "set (map fst (counter_add w kcs)) = insert w (set (map fst kcs))"
  by (induction w kcs rule: counter_add.induct) auto

lemma counter_add_distinct:
  "distinct (map fst kcs) \<Longrightarrow> distinct (map fst (counter_add w kcs))"
proof (induction kcs)
  case Nil
  then show ?case by simp
next
  case (Cons kc kcs)
  obtain k c where kc: "kc = (k, c)" by (cases kc)
  from Cons show ?case
    using counter_add_keys [of w kcs] by (auto simp: kc)
qed

lemma counter_add_lookup:
  "distinct (map fst kcs) \<Longrightarrow>
   get (counter_add w kcs) v 0 = (if v = w then Suc (get kcs v 0) else get kcs v 0)"
proof (induction kcs)
  case Nil
  then show ?case by (simp add: get_def)
next
  case (Cons kc kcs)
  obtain k c where kc: "kc = (k, c)" by (cases kc)
  from Cons have d: "distinct (map fst kcs)" and nk: "k \<notin> fst ` set kcs"
    by (auto simp: kc)
  from nk have "map_of kcs k = None"
    by (simp add: map_of_eq_None_iff)
  with Cons.IH [OF d] show ?case
    by (auto simp: kc get_def)
qed

lemma counter_add_sum:
  "sum_list (map snd (counter_add w kcs)) = Suc (sum_list (map snd kcs))"
  by (induction kcs) auto

lemma foldl_counter_facts:
  "distinct (map fst acc) \<Longrightarrow>
   distinct (map fst (foldl (\<lambda>acc w. counter_add w acc) acc ws)) \<and>
   set (map fst (foldl (\<lambda>acc w. counter_add w acc) acc ws)) = set (map fst acc) \<union> set ws \<and>
   (\<forall>v. get (foldl (\<lambda>acc w. counter_add w acc) acc ws) v 0 = get acc v 0 + count_list ws v) \<and>
   sum_list (map snd (foldl (\<lambda>acc w. counter_add w acc) acc ws)) =
     sum_list (map snd acc) + length ws"
proof (induction ws arbitrary: acc)
  case Nil
  then show ?case by simp
next
  case (Cons w ws)
  have d: "distinct (map fst (counter_add w acc))"
    using Cons.prems by (rule counter_add_distinct)
  show ?case
    using Cons.IH [OF d] counter_add_keys [of w acc]
      counter_add_lookup [OF Cons.prems, of w] counter_add_sum [of w acc]
    by auto
qed

lemma Counter_distinct: "distinct (map fst (Counter ws))"
  using foldl_counter_facts [of "[]" ws] by (simp add: Counter_def)

lemma Counter_keys: "set (map fst (Counter ws)) = set ws"
  using foldl_counter_facts [of "[]" ws] by (simp add: Counter_def)

lemma Counter_get: "get (Counter ws) v 0 = count_list ws v"
  using foldl_counter_facts [of "[]" ws] by (simp add: Counter_def get_def)


lemma Counter_entry:
  assumes "(k, c) \<in> set (Counter ws)"
  shows "c = count_list ws k" and "k \<in> set ws" and "0 < c"
proof -
  from assms Counter_distinct [of ws] have "map_of (Counter ws) k = Some c"
    by simp
  then have "get (Counter ws) k 0 = c"
    by (simp add: get_def)
  then show c: "c = count_list ws k"
    by (simp add: Counter_get)
  from assms have "k \<in> set (map fst (Counter ws))"
    by force
  then show k: "k \<in> set ws"
    by (simp only: Counter_keys)
  from k have "count_list ws k \<noteq> 0"
    by (simp add: count_list_0_iff)
  with c show "0 < c"
    by simp
qed

section \<open>Facts about the first maximum\<close>

lemma argmax_from_split:
  "\<exists>pre post. best # kcs = pre @ argmax_from best kcs # post \<and>
     (\<forall>p\<in>set pre. snd p < snd (argmax_from best kcs)) \<and>
     (\<forall>p\<in>set post. snd p \<le> snd (argmax_from best kcs))"
proof (induction kcs arbitrary: best)
  case Nil
  have "[best] = [] @ best # []" by simp
  then show ?case by (metis argmax_from.simps(1) empty_iff empty_set)
next
  case (Cons kc kcs)
  show ?case
  proof (cases "snd best < snd kc")
    case True
    define m where "m = argmax_from kc kcs"
    from Cons [of kc] obtain pre post where s: "kc # kcs = pre @ m # post"
      and lt: "\<forall>p\<in>set pre. snd p < snd m" and le: "\<forall>p\<in>set post. snd p \<le> snd m"
      unfolding m_def by blast
    have "snd kc \<le> snd m"
    proof (cases pre)
      case Nil
      with s show ?thesis by simp
    next
      case (Cons a list)
      with s lt show ?thesis by auto
    qed
    with True have b: "snd best < snd m" by simp
    have r: "argmax_from best (kc # kcs) = m"
      using True by (simp add: m_def)
    have "best # kc # kcs = (best # pre) @ m # post"
      using s by simp
    moreover have "\<forall>p\<in>set (best # pre). snd p < snd m"
      using lt b by simp
    ultimately show ?thesis
      unfolding r using le by blast
  next
    case False
    define m where "m = argmax_from best kcs"
    from Cons [of best] obtain pre post where s: "best # kcs = pre @ m # post"
      and lt: "\<forall>p\<in>set pre. snd p < snd m" and le: "\<forall>p\<in>set post. snd p \<le> snd m"
      unfolding m_def by blast
    have r: "argmax_from best (kc # kcs) = m"
      using False by (simp add: m_def)
    show ?thesis
    proof (cases pre)
      case Nil
      with s have m: "m = best" and p: "post = kcs" by simp_all
      have "best # kc # kcs = [] @ m # (kc # kcs)"
        using m by simp
      moreover have "\<forall>p\<in>set (kc # kcs). snd p \<le> snd m"
        using le p m False by auto
      moreover have "\<forall>p\<in>set ([]::('a \<times> nat) list). snd p < snd m"
        by simp
      ultimately show ?thesis
        unfolding r by blast
    next
      case (Cons a pre')
      with s have a: "a = best" and k: "kcs = pre' @ m # post" by simp_all
      from lt Cons a have b: "snd best < snd m" by simp
      have "best # kc # kcs = (best # kc # pre') @ m # post"
        using k by simp
      moreover have "\<forall>p\<in>set (best # kc # pre'). snd p < snd m"
        using lt Cons b False by auto
      ultimately show ?thesis
        unfolding r using le by blast
    qed
  qed
qed


lemma idxmax_split:
  assumes "kcs \<noteq> []"
  shows "\<exists>pre m post. idxmax kcs = Inr (fst m) \<and> kcs = pre @ m # post \<and>
     (\<forall>p\<in>set pre. snd p < snd m) \<and> (\<forall>p\<in>set post. snd p \<le> snd m)"
proof -
  from assms obtain kc rest where k: "kcs = kc # rest"
    by (cases kcs) auto
  from argmax_from_split [of kc rest] show ?thesis
    unfolding k idxmax.simps by blast
qed

lemma sort_key_keys_distinct:
  "distinct (map fst kcs) \<Longrightarrow> distinct (map fst (sort_key f kcs))"
  by (simp add: distinct_map)

lemma value_counts_set: "set (value_counts xs) = set (Counter xs)"
  by (simp add: value_counts_def)

lemma value_counts_distinct: "distinct (map fst (value_counts xs))"
  unfolding value_counts_def by (rule sort_key_keys_distinct) (rule Counter_distinct)

lemma value_counts_keys: "set (map fst (value_counts xs)) = set xs"
  using Counter_keys [of xs] by (simp add: value_counts_def)

lemma sorted_counts_set: "set (sort_index (value_counts xs)) = set (Counter xs)"
  by (simp add: sort_index_def value_counts_def)

lemma sorted_counts_distinct: "distinct (map fst (sort_index (value_counts xs)))"
  unfolding sort_index_def by (rule sort_key_keys_distinct) (rule value_counts_distinct)

lemma sorted_counts_sorted: "sorted (map fst (sort_index (value_counts xs)))"
  by (simp add: sort_index_def)

lemma sorted_counts_member:
  "k \<in> set xs \<Longrightarrow> (k, count_list xs k) \<in> set (sort_index (value_counts xs))"
proof -
  assume "k \<in> set xs"
  then have "k \<in> set (map fst (Counter xs))"
    by (simp only: Counter_keys)
  then obtain c where c: "(k, c) \<in> set (Counter xs)"
    by auto
  then have "c = count_list xs k"
    by (rule Counter_entry)
  with c show ?thesis
    by (simp add: sorted_counts_set)
qed

lemma get_distinct_keys:
  "distinct (map fst kcs) \<Longrightarrow> set kcs = set kcs' \<Longrightarrow> distinct (map fst kcs') \<Longrightarrow>
   get kcs k d = get kcs' k d"
  using map_of_inject_set [of kcs kcs'] by (simp add: get_def)

lemma sorted_counts_get: "get (sort_index (value_counts xs)) k 0 = count_list xs k"
  using get_distinct_keys [OF sorted_counts_distinct sorted_counts_set Counter_distinct, of xs k 0]
  by (simp add: Counter_get)

lemma idxmax_sorted_counts:
  assumes "xs \<noteq> []"
  shows "\<exists>d. idxmax (sort_index (value_counts xs)) = Inr d \<and> d \<in> set xs \<and>
     (\<forall>c. count_list xs c \<le> count_list xs d) \<and>
     (\<forall>c. count_list xs c = count_list xs d \<longrightarrow> d \<le> c)"
proof -
  define cs where "cs = sort_index (value_counts xs)"
  have cs_set: "set cs = set (Counter xs)"
    unfolding cs_def by (rule sorted_counts_set)
  from assms obtain x where "x \<in> set xs"
    by (cases xs) auto
  then have "(x, count_list xs x) \<in> set cs"
    unfolding cs_def by (rule sorted_counts_member)
  then have "cs \<noteq> []"
    by auto
  from idxmax_split [OF this] obtain pre m post where
    i: "idxmax cs = Inr (fst m)" and s: "cs = pre @ m # post" and
    lt: "\<forall>p\<in>set pre. snd p < snd m" and le: "\<forall>p\<in>set post. snd p \<le> snd m"
    by blast
  obtain d n where m: "m = (d, n)"
    by (cases m)
  have "m \<in> set cs"
    unfolding s by simp
  then have "(d, n) \<in> set (Counter xs)"
    unfolding cs_set m .
  then have n: "n = count_list xs d" and d_in: "d \<in> set xs"
    by (rule Counter_entry)+
  have srt: "sorted (map fst (pre @ (d, n) # post))"
    using sorted_counts_sorted [of xs] unfolding cs_def [symmetric] s m .
  have post_keys: "d \<le> fst p" if "p \<in> set post" for p
    using srt that by (simp add: sorted_append)
  have bound: "count_list xs c \<le> n \<and> (count_list xs c = n \<longrightarrow> d \<le> c)" for c
  proof (cases "c \<in> set xs")
    case False
    then have "count_list xs c = 0"
      by simp
    moreover from d_in have "count_list xs d \<noteq> 0"
      by (simp add: count_list_0_iff)
    then have "0 < n"
      unfolding n by simp
    ultimately show ?thesis
      by simp
  next
    case True
    then have "(c, count_list xs c) \<in> set cs"
      unfolding cs_def by (rule sorted_counts_member)
    then consider "(c, count_list xs c) \<in> set pre" | "(c, count_list xs c) = (d, n)"
      | "(c, count_list xs c) \<in> set post"
      unfolding s m by auto
    then show ?thesis
    proof cases
      case 1
      with lt have "snd (c, count_list xs c) < snd m"
        by blast
      then show ?thesis
        by (simp add: m)
    next
      case 2
      then have "c = d" and "n = count_list xs c"
        by blast+
      then show ?thesis
        by simp
    next
      case 3
      with le have "snd (c, count_list xs c) \<le> snd m"
        by blast
      moreover from 3 have "d \<le> fst (c, count_list xs c)"
        by (rule post_keys)
      ultimately show ?thesis
        by (simp add: m)
    qed
  qed
  from i have "idxmax (sort_index (value_counts xs)) = Inr d"
    by (simp add: m cs_def)
  moreover have "\<forall>c. count_list xs c \<le> count_list xs d"
    using bound unfolding n by blast
  moreover have "\<forall>c. count_list xs c = count_list xs d \<longrightarrow> d \<le> c"
    using bound unfolding n by blast
  ultimately show ?thesis
    using d_in by blast
qed

lemma idxmax_value_counts:
  assumes "xs \<noteq> []"
  shows "\<exists>k. idxmax (value_counts xs) = Inr k"
proof -
  from assms have "set (map fst (value_counts xs)) \<noteq> {}"
    by (simp only: value_counts_keys) simp
  then obtain kc kcs where "value_counts xs = kc # kcs"
    by (cases "value_counts xs") auto
  then show ?thesis
    by simp
qed

section \<open>The dominant sentiment\<close>

lemma analyze_sentiment_distribution_Inr:
  assumes "idxmax (sort_index (value_counts (map sentiment data))) = Inr d"
    and "idxmax (value_counts (map sentiment_label data)) = Inr l"
  shows "\<exists>r. analyze_sentiment_distribution data = Inr r \<and> dominant_sentiment r = d \<and>
     sentiment_counts r = sort_index (value_counts (map sentiment data)) \<and>
     total_tweets r = length data \<and>
     sentiment_percentages r =
       percentages (length data) (sort_index (value_counts (map sentiment data)))"
  using assms by (simp add: analyze_sentiment_distribution_def Let_def)

text \<open>
  Claim C2. On a non-empty frame the analysis succeeds; the raw count it reports for a
  code is the number of rows carrying that code; no code has a larger count than the
  dominant sentiment; and every code whose count equals the dominant one's is numerically
  at least the dominant code, so ties go to the lowest code.
\<close>

theorem dominant_sentiment_max_lowest:
  assumes "data \<noteq> []"
  shows "\<exists>r. analyze_sentiment_distribution data = Inr r \<and>
     dominant_sentiment r \<in> sentiment ` set data \<and>
     (\<forall>c. get (sentiment_counts r) c 0 = count_list (map sentiment data) c) \<and>
     (\<forall>c. count_list (map sentiment data) c
          \<le> count_list (map sentiment data) (dominant_sentiment r)) \<and>
     (\<forall>c. count_list (map sentiment data) c
            = count_list (map sentiment data) (dominant_sentiment r)
          \<longrightarrow> dominant_sentiment r \<le> c)"
proof -
  from assms have ne: "map sentiment data \<noteq> []" and nel: "map sentiment_label data \<noteq> []"
    by simp_all
  from idxmax_sorted_counts [OF ne] obtain d where
    d: "idxmax (sort_index (value_counts (map sentiment data))) = Inr d" and
    d_in: "d \<in> set (map sentiment data)" and
    mx: "\<forall>c. count_list (map sentiment data) c \<le> count_list (map sentiment data) d" and
    lo: "\<forall>c. count_list (map sentiment data) c = count_list (map sentiment data) d
           \<longrightarrow> d \<le> c"
    by blast
  from idxmax_value_counts [OF nel] obtain l where
    l: "idxmax (value_counts (map sentiment_label data)) = Inr l"
    by blast
  from analyze_sentiment_distribution_Inr [OF d l] obtain r where
    r: "analyze_sentiment_distribution data = Inr r" and rd: "dominant_sentiment r = d" and
    rc: "sentiment_counts r = sort_index (value_counts (map sentiment data))"
    by blast
  have "\<forall>c. get (sentiment_counts r) c 0 = count_list (map sentiment data) c"
    unfolding rc by (simp add: sorted_counts_get)
  moreover from d_in have "dominant_sentiment r \<in> sentiment ` set data"
    unfolding rd by simp
  ultimately show ?thesis
    using r mx lo unfolding rd [symmetric] by blast
qed

theorem dominant_sentiment_max_lowest_witness:
  "example_tweets \<noteq> [] \<and>
   (\<exists>r. analyze_sentiment_distribution example_tweets = Inr r \<and>
     dominant_sentiment r \<in> sentiment ` set example_tweets \<and>
     (\<forall>c. get (sentiment_counts r) c 0 = count_list (map sentiment example_tweets) c) \<and>
     (\<forall>c. count_list (map sentiment example_tweets) c
          \<le> count_list (map sentiment example_tweets) (dominant_sentiment r)) \<and>
     (\<forall>c. count_list (map sentiment example_tweets) c
            = count_list (map sentiment example_tweets) (dominant_sentiment r)
          \<longrightarrow> dominant_sentiment r \<le> c))"
proof -
  have ne: "example_tweets \<noteq> []"
    by (simp add: example_tweets_def)
  from ne dominant_sentiment_max_lowest [OF ne] show ?thesis
    by (rule conjI)
qed

section \<open>Facts about float64 rounding\<close>

lemma rint_error: "\<bar>of_int (rint x) - x\<bar> \<le> 1 / 2"
proof -
  have "of_int \<lfloor>x\<rfloor> \<le> x" and "x < of_int \<lfloor>x\<rfloor> + 1"
    by linarith+
  then show ?thesis
    unfolding rint_def Let_def by (auto simp: abs_le_iff)
qed

lemma bexp_lower:
  assumes "x \<noteq> 0"
  shows "2 powi bexp x \<le> \<bar>x\<bar>"
proof (cases "1 \<le> \<bar>x\<bar>")
  case True
  define n where "n = nat \<lfloor>\<bar>x\<bar>\<rfloor>"
  from True have n: "0 < n" and nx: "real n \<le> \<bar>x\<bar>"
    unfolding n_def by (simp_all add: le_floor_iff)
  have k: "1 \<le> floorlog 2 n"
    using n by (simp add: floorlog_def)
  have "(2::nat) ^ (floorlog 2 n - 1) \<le> n"
    using floorlog_bounds [of n 2] n by simp
  then have "real ((2::nat) ^ (floorlog 2 n - 1)) \<le> real n"
    by (rule of_nat_mono)
  then have "(2::real) ^ (floorlog 2 n - 1) \<le> real n"
    by simp
  with nx have "(2::real) ^ (floorlog 2 n - 1) \<le> \<bar>x\<bar>"
    by linarith
  moreover have "bexp x = int (floorlog 2 n - 1)"
    using True k by (simp add: bexp_def n_def)
  ultimately show ?thesis
    by (simp only: power_int_of_nat)
next
  case False
  define y where "y = 1 / \<bar>x\<bar>"
  define M where "M = nat (\<lceil>y\<rceil> - 1)"
  define m where "m = floorlog 2 M"
  from False assms have y: "1 < y" and xpos: "0 < \<bar>x\<bar>"
    unfolding y_def by simp_all
  from y have "2 \<le> \<lceil>y\<rceil>"
    by (simp add: le_ceiling_iff)
  then have M: "0 < M" and MN: "int M = \<lceil>y\<rceil> - 1"
    unfolding M_def by simp_all
  have "M < 2 ^ m"
    unfolding m_def using floorlog_bounds [of M 2] M by simp
  then have "int M < 2 ^ m"
    by (metis of_nat_less_iff of_nat_numeral of_nat_power)
  then have "\<lceil>y\<rceil> \<le> 2 ^ m"
    using MN by simp
  then have "y \<le> 2 ^ m"
    by (metis ceiling_le_iff of_int_numeral of_int_power)
  then have "1 / 2 ^ m \<le> \<bar>x\<bar>"
    using xpos unfolding y_def by (simp add: field_simps)
  moreover have "bexp x = - int m"
    using False by (simp add: bexp_def m_def M_def y_def)
  moreover have "(2::real) powi (- int m) = 1 / 2 ^ m"
    by (simp add: power_int_minus divide_inverse)
  ultimately show ?thesis
    by simp
qed



lemma bexp_upper:
  assumes "x \<noteq> 0"
  shows "\<bar>x\<bar> < 2 powi (bexp x + 1)"
proof (cases "1 \<le> \<bar>x\<bar>")
  case True
  define n where "n = nat \<lfloor>\<bar>x\<bar>\<rfloor>"
  from True have n: "0 < n" and nx: "int n = \<lfloor>\<bar>x\<bar>\<rfloor>"
    unfolding n_def by (simp_all add: le_floor_iff)
  have "n < 2 ^ floorlog 2 n"
    using floorlog_bounds [of n 2] n by simp
  then have "int n < 2 ^ floorlog 2 n"
    by (metis of_nat_less_iff of_nat_numeral of_nat_power)
  then have "\<lfloor>\<bar>x\<bar>\<rfloor> < 2 ^ floorlog 2 n"
    unfolding nx .
  then have "\<bar>x\<bar> < 2 ^ floorlog 2 n"
    by (metis floor_less_iff of_int_numeral of_int_power)
  moreover have "bexp x + 1 = int (floorlog 2 n)"
    using True by (simp add: bexp_def n_def)
  ultimately show ?thesis
    by (simp only: power_int_of_nat)
next
  case False
  define y where "y = 1 / \<bar>x\<bar>"
  define M where "M = nat (\<lceil>y\<rceil> - 1)"
  define m where "m = floorlog 2 M"
  from False assms have y: "1 < y" and xpos: "0 < \<bar>x\<bar>"
    unfolding y_def by simp_all
  from y have "2 \<le> \<lceil>y\<rceil>"
    by (simp add: le_ceiling_iff)
  then have M: "0 < M" and MN: "int M = \<lceil>y\<rceil> - 1"
    unfolding M_def by simp_all
  have m: "1 \<le> m"
    unfolding m_def using M by (simp add: floorlog_def)
  have "2 ^ (m - 1) \<le> M"
    unfolding m_def using floorlog_bounds [of M 2] M by simp
  then have "real ((2::nat) ^ (m - 1)) \<le> real M"
    by (rule of_nat_mono)
  moreover have "real M = of_int (\<lceil>y\<rceil> - 1)"
    using MN by (metis of_int_of_nat_eq)
  moreover have "of_int (\<lceil>y\<rceil> - 1) < y"
    by linarith
  ultimately have "(2::real) ^ (m - 1) < y"
    by simp
  then have "\<bar>x\<bar> < 1 / 2 ^ (m - 1)"
    using xpos unfolding y_def by (simp add: field_simps)
  moreover have "bexp x + 1 = - int (m - 1)"
    using False m by (simp add: bexp_def m_def M_def y_def)
  moreover have "(2::real) powi (- int (m - 1)) = 1 / 2 ^ (m - 1)"
    by (simp add: power_int_minus divide_inverse)
  ultimately show ?thesis
    by simp
qed

lemma bexp_unique:
  assumes "2 powi e \<le> \<bar>x\<bar>" and "\<bar>x\<bar> < 2 powi (e + 1)"
  shows "bexp x = e"
proof -
  have "0 < (2::real) powi e"
    by (rule zero_less_power_int) simp
  with assms(1) have "0 < \<bar>x\<bar>"
    by linarith
  then have nz: "x \<noteq> 0"
    by simp
  have "e < bexp x + 1"
  proof (rule ccontr)
    assume "\<not> e < bexp x + 1"
    then have "(2::real) powi (bexp x + 1) \<le> 2 powi e"
      by (intro power_int_increasing) simp_all
    with assms(1) bexp_upper [OF nz] show False
      by linarith
  qed
  moreover have "bexp x < e + 1"
  proof (rule ccontr)
    assume "\<not> bexp x < e + 1"
    then have "(2::real) powi (e + 1) \<le> 2 powi bexp x"
      by (intro power_int_increasing) simp_all
    with assms(2) bexp_lower [OF nz] show False
      by linarith
  qed
  ultimately show ?thesis
    by simp
qed

lemma rint_unique:
  assumes "\<bar>of_int m - t\<bar> < 1 / 2"
  shows "rint t = m"
proof -
  have "\<bar>of_int (rint t) - t\<bar> \<le> 1 / 2"
    by (rule rint_error)
  with assms have "\<bar>real_of_int (rint t) - real_of_int m\<bar> < 1"
    by linarith
  then have "\<bar>real_of_int (rint t - m)\<bar> < 1"
    by simp
  then have "\<bar>rint t - m\<bar> < 1"
    by linarith
  then show ?thesis
    by simp
qed

lemma fl64_eval:
  assumes "2 powi e \<le> \<bar>x\<bar>" and "\<bar>x\<bar> < 2 powi (e + 1)"
    and "\<bar>of_int m - x * 2 powi (52 - e)\<bar> < 1 / 2"
  shows "fl64 x = of_int m * 2 powi (e - 52)"
proof -
  have "0 < (2::real) powi e"
    by (rule zero_less_power_int) simp
  with assms(1) have "0 < \<bar>x\<bar>"
    by linarith
  then have "x \<noteq> 0"
    by simp
  moreover from assms(1,2) have "bexp x = e"
    by (rule bexp_unique)
  moreover from assms(3) have "rint (x * 2 powi (52 - e)) = m"
    by (rule rint_unique)
  ultimately show ?thesis
    by (simp add: fl64_def)
qed

section \<open>Percentages\<close>
















text \<open>
  On the frame of 160 rows the rounding of the float64 operations shows: the exact
  percentages 14.375 and 30.625 lie halfway between two hundredths, the float64 products
  are just below and just above them, and the results are the float64 numbers nearest to
  14.37 and 30.63.
\<close>

lemma percentage_23_of_160: "np_round 2 (fmul (fdiv 23 160) 100) = fl64 (1437 / 100)"
proof -
  have y: "fl64 (23 / 160) = 5179139571476070 / 2 ^ 55"
    using fl64_eval [of "- 3" "23 / 160" 5179139571476070] by simp
  have z: "fl64 (5179139571476070 / 2 ^ 55 * 100) = 8092405580431359 / 2 ^ 49"
    using fl64_eval [of 3 "5179139571476070 / 2 ^ 55 * 100" 8092405580431359] by simp
  have w: "fl64 (8092405580431359 / 2 ^ 49 * 100) = 6322191859711999 / 2 ^ 42"
    using fl64_eval [of 10 "8092405580431359 / 2 ^ 49 * 100" 6322191859711999] by simp
  have k: "rint (6322191859711999 / 2 ^ 42) = 1437"
    by (rule rint_unique) simp
  have h: "(10::real) ^ 2 = 100"
    by simp
  have "np_round 2 (fmul (fdiv 23 160) 100) = fl64 (of_int 1437 / 100)"
    unfolding np_round_def fmul_def fdiv_def h y z w k ..
  then show ?thesis
    by simp
qed

lemma percentage_49_of_160: "np_round 2 (fmul (fdiv 49 160) 100) = fl64 (3063 / 100)"
proof -
  have y: "fl64 (49 / 160) = 5516909543528858 / 2 ^ 54"
    using fl64_eval [of "- 2" "49 / 160" 5516909543528858] by simp
  have z: "fl64 (5516909543528858 / 2 ^ 54 * 100) = 8620171161763841 / 2 ^ 48"
    using fl64_eval [of 4 "5516909543528858 / 2 ^ 54 * 100" 8620171161763841] by simp
  have w: "fl64 (8620171161763841 / 2 ^ 48 * 100) = 6734508720128001 / 2 ^ 41"
    using fl64_eval [of 11 "8620171161763841 / 2 ^ 48 * 100" 6734508720128001] by simp
  have k: "rint (6734508720128001 / 2 ^ 41) = 3063"
    by (rule rint_unique) simp
  have h: "(10::real) ^ 2 = 100"
    by simp
  have "np_round 2 (fmul (fdiv 49 160) 100) = fl64 (of_int 3063 / 100)"
    unfolding np_round_def fmul_def fdiv_def h y z w k ..
  then show ?thesis
    by simp
qed

lemma percentage_88_of_160: "np_round 2 (fmul (fdiv 88 160) 100) = 55"
proof -
  have y: "fl64 (88 / 160) = 4953959590107546 / 2 ^ 53"
    using fl64_eval [of "- 1" "88 / 160" 4953959590107546] by simp
  have z: "fl64 (4953959590107546 / 2 ^ 53 * 100) = 7740561859543041 / 2 ^ 47"
    using fl64_eval [of 5 "4953959590107546 / 2 ^ 53 * 100" 7740561859543041] by simp
  have w: "fl64 (7740561859543041 / 2 ^ 47 * 100) = 6047313952768001 / 2 ^ 40"
    using fl64_eval [of 12 "7740561859543041 / 2 ^ 47 * 100" 6047313952768001] by simp
  have k: "rint (6047313952768001 / 2 ^ 40) = 5500"
    by (rule rint_unique) simp
  have h: "(10::real) ^ 2 = 100"
    by simp
  have "np_round 2 (fmul (fdiv 88 160) 100) = fl64 (of_int 5500 / 100)"
    unfolding np_round_def fmul_def fdiv_def h y z w k ..
  moreover have "fl64 55 = 55"
    using fl64_eval [of 5 55 7740561859543040] by simp
  ultimately show ?thesis
    by simp
qed

lemma percentages_rounding_counts:
  "percentages 160 [(- 1, 23), (0, 49), (1, 88)]
     = [(- 1, fl64 (1437 / 100)), (0, fl64 (3063 / 100)), (1, 55)]"
  by (simp add: percentages_def percentage_23_of_160 percentage_49_of_160 percentage_88_of_160)

lemma sentiment_counts_rounding_tweets:
  "sort_index (value_counts (map sentiment rounding_tweets)) = [(- 1, 23), (0, 49), (1, 88)]"
  by code_simp

lemma sentiment_percentages_rounding_tweets:
  "\<exists>r. analyze_sentiment_distribution rounding_tweets = Inr r \<and>
     sentiment_percentages r = [(- 1, fl64 (1437 / 100)), (0, fl64 (3063 / 100)), (1, 55)]"
proof -
  have ne: "map sentiment rounding_tweets \<noteq> []"
    and nel: "map sentiment_label rounding_tweets \<noteq> []"
    and len: "length rounding_tweets = 160"
    by (simp_all add: rounding_tweets_def)
  from idxmax_sorted_counts [OF ne] obtain d where
    d: "idxmax (sort_index (value_counts (map sentiment rounding_tweets))) = Inr d"
    by blast
  from idxmax_value_counts [OF nel] obtain l where
    l: "idxmax (value_counts (map sentiment_label rounding_tweets)) = Inr l"
    by blast
  from analyze_sentiment_distribution_Inr [OF d l] show ?thesis
    unfolding len sentiment_counts_rounding_tweets percentages_rounding_counts by blast
qed



section \<open>Recommendation rules\<close>

lemma messages_distinct:
  "anti_message \<noteq> neutral_message" "anti_message \<noteq> pro_message"
  "anti_message \<noteq> vocabulary_message" "anti_message \<noteq> focus_message themes"
  "vocabulary_message \<noteq> neutral_message" "vocabulary_message \<noteq> pro_message"
  "vocabulary_message \<noteq> focus_message themes"
  by (simp_all add: anti_message_def neutral_message_def pro_message_def
      vocabulary_message_def focus_message_def ascii_def)

lemma recommendations_shape:
  "generate_recommendations sd kt =
     (if pro_climate (sentiment_balance sd) < anti_climate (sentiment_balance sd)
      then [anti_message] else []) @
     (if pro_climate (sentiment_balance sd) + anti_climate (sentiment_balance sd)
          < neutral (sentiment_balance sd)
      then [neutral_message] else []) @
     (if anti_climate (sentiment_balance sd) < pro_climate (sentiment_balance sd)
      then [pro_message] else []) @
     (if length (climate_related_words kt) < 10 then [vocabulary_message] else []) @
     [focus_message (map fst (take 10 (top_themes kt)))]"
  by (simp add: generate_recommendations_def Let_def)

lemma climate_related_words_count:
  "length (climate_related_words (identify_key_themes U top_n data))
     = card {w \<in> set (filtered_words U (join (ascii '' '') (map message data))).
              list_ex (\<lambda>keyword. contains keyword w) climate_keywords}"
proof -
  define ws where "ws = filtered_words U (join (ascii '' '') (map message data))"
  define P where "P = (\<lambda>w. list_ex (\<lambda>keyword. contains keyword w) climate_keywords)"
  have tbl: "climate_related_words (identify_key_themes U top_n data)
      = filter (\<lambda>wc. P (fst wc)) (Counter ws)"
    by (simp add: identify_key_themes_def Let_def ws_def P_def)
  have d: "distinct (map fst (filter (\<lambda>wc. P (fst wc)) (Counter ws)))"
    using Counter_distinct [of ws] by (simp add: distinct_map_filter)
  have "set (map fst (filter (\<lambda>wc. P (fst wc)) (Counter ws))) = {w \<in> set ws. P w}"
    using Counter_keys [of ws] by auto
  then have "card {w \<in> set ws. P w}
      = length (map fst (filter (\<lambda>wc. P (fst wc)) (Counter ws)))"
    using distinct_card [OF d] by simp
  then show ?thesis
    unfolding tbl ws_def P_def by simp
qed

lemma focus_message_top5:
  "focus_message (map fst (take 10 themes))
     = ascii ''Focus on key themes: '' @ join (ascii '', '') (map fst (take 5 themes))"
  by (simp add: focus_message_def take_map)

text \<open>
  Claim C4. The recommendations are the messages of the rules 1 to 4 whose guards hold, in
  rule order, followed by the themes-focus message. So the anti-climate message is in the
  list exactly when anti_climate exceeds pro_climate, the vocabulary message exactly when
  the climate-related table has fewer than 10 entries, and the last element is always the
  focus message, which names the first five of the global top themes.
\<close>

theorem generate_recommendations_rules:
  "generate_recommendations sd kt =
     (if pro_climate (sentiment_balance sd) < anti_climate (sentiment_balance sd)
      then [anti_message] else []) @
     (if pro_climate (sentiment_balance sd) + anti_climate (sentiment_balance sd)
          < neutral (sentiment_balance sd)
      then [neutral_message] else []) @
     (if anti_climate (sentiment_balance sd) < pro_climate (sentiment_balance sd)
      then [pro_message] else []) @
     (if length (climate_related_words kt) < 10 then [vocabulary_message] else []) @
     [ascii ''Focus on key themes: '' @ join (ascii '', '') (map fst (take 5 (top_themes kt)))] \<and>
   (anti_message \<in> set (generate_recommendations sd kt))
     = (pro_climate (sentiment_balance sd) < anti_climate (sentiment_balance sd)) \<and>
   (vocabulary_message \<in> set (generate_recommendations sd kt))
     = (length (climate_related_words kt) < 10) \<and>
   last (generate_recommendations sd kt)
     = ascii ''Focus on key themes: '' @ join (ascii '', '') (map fst (take 5 (top_themes kt)))"
proof -
  have shape: "generate_recommendations sd kt =
     (if pro_climate (sentiment_balance sd) < anti_climate (sentiment_balance sd)
      then [anti_message] else []) @
     (if pro_climate (sentiment_balance sd) + anti_climate (sentiment_balance sd)
          < neutral (sentiment_balance sd)
      then [neutral_message] else []) @
     (if anti_climate (sentiment_balance sd) < pro_climate (sentiment_balance sd)
      then [pro_message] else []) @
     (if length (climate_related_words kt) < 10 then [vocabulary_message] else []) @
     [ascii ''Focus on key themes: '' @ join (ascii '', '') (map fst (take 5 (top_themes kt)))]"
    unfolding recommendations_shape focus_message_top5 ..
  have anti: "(anti_message \<in> set (generate_recommendations sd kt))
     = (pro_climate (sentiment_balance sd) < anti_climate (sentiment_balance sd))"
    unfolding recommendations_shape by (simp add: messages_distinct messages_distinct [symmetric])
  have voc: "(vocabulary_message \<in> set (generate_recommendations sd kt))
     = (length (climate_related_words kt) < 10)"
    unfolding recommendations_shape by (simp add: messages_distinct messages_distinct [symmetric])
  have lst: "last (generate_recommendations sd kt)
     = ascii ''Focus on key themes: '' @ join (ascii '', '') (map fst (take 5 (top_themes kt)))"
    unfolding shape by simp
  from shape anti voc lst show ?thesis
    by (intro conjI)
qed

section \<open>Theme tables by sentiment\<close>

lemma theme_by_sentiment_unfold:
  "theme_by_sentiment (identify_key_themes U top_n data)
     = map (\<lambda>s. (s, sentiment_themes U data s)) [- 1, 0, 1, 2]"
  by (simp add: identify_key_themes_def Let_def)

lemma sentiment_themes_unfold:
  "sentiment_themes U data c = most_common 10 (Counter (class_tokens U data c))"
  by (simp add: sentiment_themes_def class_tokens_def Let_def)

lemma most_common_length: "length (most_common n kcs) \<le> n"
  by (simp add: most_common_def)

lemma most_common_subset: "set (most_common n kcs) \<subseteq> set kcs"
  unfolding most_common_def using set_take_subset [of n "sort_key (\<lambda>kc. - int (snd kc)) kcs"]
  by simp

lemma filtered_words_empty: "filtered_words U [] = []"
  by (simp add: filtered_words_def str_lower_def re_sub_non_word_def str_split_def)

lemma class_tokens_absent:
  assumes "c \<notin> sentiment ` set data"
  shows "class_tokens U data c = []"
proof -
  from assms have "filter (\<lambda>t. sentiment t = c) data = []"
    by (auto simp: filter_empty_conv)
  then show ?thesis
    by (simp add: class_tokens_def filtered_words_empty)
qed

lemma sentiment_themes_absent:
  assumes "c \<notin> sentiment ` set data"
  shows "sentiment_themes U data c = []"
  unfolding sentiment_themes_unfold class_tokens_absent [OF assms]
  by (simp add: Counter_def most_common_def)

lemma sentiment_themes_entry:
  assumes "(w, k) \<in> set (sentiment_themes U data c)"
  shows "w \<in> set (class_tokens U data c)" and "k = count_list (class_tokens U data c) w"
proof -
  from assms most_common_subset have e: "(w, k) \<in> set (Counter (class_tokens U data c))"
    unfolding sentiment_themes_unfold by blast
  from e show "w \<in> set (class_tokens U data c)"
    by (rule Counter_entry)
  from e show "k = count_list (class_tokens U data c) w"
    by (rule Counter_entry)
qed

lemma class_tokens_same_rows:
  assumes "filter (\<lambda>t. sentiment t = c) data' = filter (\<lambda>t. sentiment t = c) data"
  shows "sentiment_themes U data' c = sentiment_themes U data c"
  unfolding sentiment_themes_unfold class_tokens_def assms ..

lemma theme_by_sentiment_lookup:
  assumes "(c, tbl) \<in> set (theme_by_sentiment (identify_key_themes U top_n data))"
  shows "c \<in> {- 1, 0, 1, 2}" and "tbl = sentiment_themes U data c"
  using assms unfolding theme_by_sentiment_unfold by auto

text \<open>
  Claim C10. The per-class mapping has the keys -1, 0, 1, 2, in this order and each once,
  whatever the frame holds. The table of every key has at most 10 entries, and the table of
  a code that no row carries is empty. The function has no error value: it returns for
  every frame.
\<close>

theorem theme_by_sentiment_four_keys:
  "map fst (theme_by_sentiment (identify_key_themes U top_n data)) = [- 1, 0, 1, 2] \<and>
   (\<forall>c tbl. (c, tbl) \<in> set (theme_by_sentiment (identify_key_themes U top_n data)) \<longrightarrow>
      length tbl \<le> 10 \<and> (c \<notin> sentiment ` set data \<longrightarrow> tbl = []))"
proof -
  have keys: "map fst (theme_by_sentiment (identify_key_themes U top_n data)) = [- 1, 0, 1, 2]"
    unfolding theme_by_sentiment_unfold by simp
  have each: "length tbl \<le> 10 \<and> (c \<notin> sentiment ` set data \<longrightarrow> tbl = [])"
    if "(c, tbl) \<in> set (theme_by_sentiment (identify_key_themes U top_n data))" for c tbl
  proof -
    from that have tbl: "tbl = sentiment_themes U data c"
      by (rule theme_by_sentiment_lookup)
    have "length tbl \<le> 10"
      unfolding tbl sentiment_themes_unfold by (rule most_common_length)
    moreover have "c \<notin> sentiment ` set data \<longrightarrow> tbl = []"
      unfolding tbl using sentiment_themes_absent by blast
    ultimately show ?thesis
      by (rule conjI)
  qed
  from keys each show ?thesis
    by blast
qed

theorem theme_by_sentiment_four_keys_witness:
  "0 \<notin> sentiment ` set example_tweets \<and>
   (0, []) \<in> set (theme_by_sentiment (identify_key_themes ascii_db 20 example_tweets)) \<and>
   map fst (theme_by_sentiment (identify_key_themes ascii_db 20 example_tweets))
     = [- 1, 0, 1, 2]"
proof -
  have absent: "0 \<notin> sentiment ` set example_tweets"
    by (simp add: example_tweets_def)
  note t = theme_by_sentiment_four_keys [of ascii_db 20 example_tweets]
  from t have keys:
    "map fst (theme_by_sentiment (identify_key_themes ascii_db 20 example_tweets))
       = [- 1, 0, 1, 2]"
    by (rule conjunct1)
  then have "0 \<in> fst ` set (theme_by_sentiment (identify_key_themes ascii_db 20 example_tweets))"
    by (metis insert_iff list.set_map list.simps(15))
  then obtain tbl where
    m: "(0, tbl) \<in> set (theme_by_sentiment (identify_key_themes ascii_db 20 example_tweets))"
    by auto
  with t absent have "tbl = []"
    by blast
  with m absent keys show ?thesis
    by simp
qed

text \<open>
  Claim C9. The theme table of a class holds only tokens of the text of that class, the
  messages of the rows whose sentiment is the class joined and tokenized, each with the
  number of times it occurs there. Rows of other classes have no part in it: two frames
  with the same rows of class c have the same table for c.
\<close>

theorem theme_by_sentiment_own_class:
  "\<forall>c tbl. (c, tbl) \<in> set (theme_by_sentiment (identify_key_themes U top_n data)) \<longrightarrow>
      c \<in> {- 1, 0, 1, 2} \<and>
      (\<forall>w k. (w, k) \<in> set tbl \<longrightarrow>
         w \<in> set (class_tokens U data c) \<and> k = count_list (class_tokens U data c) w) \<and>
      (\<forall>data'. filter (\<lambda>t. sentiment t = c) data' = filter (\<lambda>t. sentiment t = c) data \<longrightarrow>
         (c, tbl) \<in> set (theme_by_sentiment (identify_key_themes U top_n data')))"
proof (intro allI impI)
  fix c tbl
  assume m: "(c, tbl) \<in> set (theme_by_sentiment (identify_key_themes U top_n data))"
  then have c: "c \<in> {- 1, 0, 1, 2}" and tbl: "tbl = sentiment_themes U data c"
    by (rule theme_by_sentiment_lookup)+
  have own: "\<forall>w k. (w, k) \<in> set tbl \<longrightarrow>
      w \<in> set (class_tokens U data c) \<and> k = count_list (class_tokens U data c) w"
    unfolding tbl using sentiment_themes_entry by blast
  have same: "(c, tbl) \<in> set (theme_by_sentiment (identify_key_themes U top_n data'))"
    if "filter (\<lambda>t. sentiment t = c) data' = filter (\<lambda>t. sentiment t = c) data" for data'
  proof -
    from that have "sentiment_themes U data' c = tbl"
      unfolding tbl by (rule class_tokens_same_rows)
    with c show ?thesis
      unfolding theme_by_sentiment_unfold by auto
  qed
  from c own same
  show "c \<in> {- 1, 0, 1, 2} \<and>
      (\<forall>w k. (w, k) \<in> set tbl \<longrightarrow>
         w \<in> set (class_tokens U data c) \<and> k = count_list (class_tokens U data c) w) \<and>
      (\<forall>data'. filter (\<lambda>t. sentiment t = c) data' = filter (\<lambda>t. sentiment t = c) data \<longrightarrow>
         (c, tbl) \<in> set (theme_by_sentiment (identify_key_themes U top_n data')))"
    by blast
qed

lemma theme_by_sentiment_example:
  "theme_by_sentiment (identify_key_themes ascii_db 20 example_tweets)
     = [(- 1, [(ascii ''fake'', 2), (ascii ''hoax'', 1)]), (0, []),
        (1, [(ascii ''solar'', 2), (ascii ''wind'', 1)]), (2, [])]"
  by code_simp

theorem theme_by_sentiment_own_class_witness:
  "(1, [(ascii ''solar'', 2), (ascii ''wind'', 1)])
     \<in> set (theme_by_sentiment (identify_key_themes ascii_db 20 example_tweets)) \<and>
   (ascii ''solar'', 2) \<in> set [(ascii ''solar'', 2), (ascii ''wind'', 1)] \<and>
   ascii ''solar'' \<in> set (class_tokens ascii_db example_tweets 1) \<and>
   2 = count_list (class_tokens ascii_db example_tweets 1) (ascii ''solar'')"
proof -
  have m: "(1, [(ascii ''solar'', 2), (ascii ''wind'', 1)])
     \<in> set (theme_by_sentiment (identify_key_themes ascii_db 20 example_tweets))"
    unfolding theme_by_sentiment_example by simp
  have e: "(ascii ''solar'', 2) \<in> set [(ascii ''solar'', 2), (ascii ''wind'', 1)]"
    by simp
  from theme_by_sentiment_own_class [of ascii_db 20 example_tweets] m e
  have "ascii ''solar'' \<in> set (class_tokens ascii_db example_tweets 1) \<and>
      2 = count_list (class_tokens ascii_db example_tweets 1) (ascii ''solar'')"
    by blast
  with m e show ?thesis
    by blast
qed

end
